theory Spec2Isabelle
  imports Main "HOL-Library.Word"
begin

section \<open>Go error values\<close>

text \<open>
  The format strings of the \<^verbatim>\<open>fmt.Errorf\<close> calls in postgres.go. Their text is Russian;
  each constructor stands for one format string, named by what it says:
  \<^item> \<open>F_prepare\<close>: "query preparation error: %w" (QueryMultiple, UpdateRecord,
    DeleteRecord, ExecuteNonQuery, QuerySingle);
  \<^item> \<open>F_not_added\<close>: "%w: record not added" (InsertRecord);
  \<^item> \<open>F_not_updated\<close>: "%w: record not updated" (UpdateRecord);
  \<^item> \<open>F_add\<close>: "insertion error: %w" (AddRecord);
  \<^item> \<open>F_not_done\<close>: "%w: action not performed" (ExecuteNonQuery);
  \<^item> \<open>F_retries n\<close>: "could not connect to the database after %d attempts: %w" with
    the \<^verbatim>\<open>%d\<close> operand \<open>n\<close> (InitDB);
  \<^item> \<open>F_open\<close>: "error opening the connection: %w" (connectDB);
  \<^item> \<open>F_ping\<close>: "error checking the connection: %w" (connectDB).
\<close>

datatype format =
    F_prepare
  | F_not_added
  | F_not_updated
  | F_add
  | F_not_done
  | F_retries nat
  | F_open
  | F_ping

text \<open>
  A non-nil Go \<^verbatim>\<open>error\<close>. The first seven constructors are the sentinels of package
  errors (errors.go); \<open>SqlErrNoRows\<close> is \<^verbatim>\<open>sql.ErrNoRows\<close>; \<open>DriverError\<close> is any other
  error value of the driver, with its text. \<open>Errorf f err\<close> is \<^verbatim>\<open>fmt.Errorf\<close> of a format
  with one \<^verbatim>\<open>%w\<close> operand \<open>err\<close>; \<open>ErrorfV w v\<close> is \<^verbatim>\<open>fmt.Errorf("%w: %v", w, v)\<close>, which
  wraps \<open>w\<close> and only prints \<open>v\<close>; \<open>ErrorfNil f\<close> is \<^verbatim>\<open>fmt.Errorf\<close> with a nil \<^verbatim>\<open>%w\<close> operand,
  which wraps nothing. The nil error is \<open>None\<close> of \<open>go_error option\<close>.
\<close>

datatype go_error =
    ErrNotFound
  | ErrNotAuthorized
  | ErrInternal
  | ErrNotUpdated
  | ErrAlreadyExists
  | ErrInvalidParams
  | ErrAccessDenied
  | SqlErrNoRows
  | DriverError string
  | Errorf format go_error
  | ErrorfV go_error go_error
  | ErrorfNil format

text \<open>\<^verbatim>\<open>errors.Unwrap\<close>: the \<^verbatim>\<open>%w\<close> operand of a wrapping error, nil for the others.\<close>

fun Unwrap :: "go_error \<Rightarrow> go_error option" where
  "Unwrap (Errorf f err) = Some err"
| "Unwrap (ErrorfV w v) = Some w"
| "Unwrap err = None"

text \<open>
  \<^verbatim>\<open>errors.Is(err, target)\<close> for a non-nil \<open>err\<close>: \<open>err\<close> or an error of its \<open>Unwrap\<close> chain
  equals the target. The targets of postgres.go are sentinels only.
\<close>

fun errors_Is :: "go_error \<Rightarrow> go_error \<Rightarrow> bool" where
  "errors_Is (Errorf f err) target = (Errorf f err = target \<or> errors_Is err target)"
| "errors_Is (ErrorfV w v) target = (ErrorfV w v = target \<or> errors_Is w target)"
| "errors_Is err target = (err = target)"

section \<open>The Queryer interface\<close>

type_synonym int64 = "64 word"

text \<open>
  \<^verbatim>\<open>map[string]interface{}\<close>: the named parameters, with values of a type \<open>'v\<close>.
\<close>

type_synonym 'v params = "string \<rightharpoonup> 'v"

text \<open>
  \<^verbatim>\<open>sql.Result\<close>, of which the helpers call \<^verbatim>\<open>RowsAffected()\<close> only: a driver error or
  the count.
\<close>

record sql_Result =
  RowsAffected :: "go_error + int64"

text \<open>
  \<^verbatim>\<open>*sqlx.NamedStmt\<close>, by what its three methods answer for a context \<open>'c\<close> and the
  parameters. \<open>'r\<close> is the element type of the destination: \<open>SelectContext\<close> answers a
  driver error or the rows scanned into the destination slice, \<open>GetContext\<close> a driver
  error or the one scanned value, \<open>ExecContext\<close> a driver error or the result.
  \<^verbatim>\<open>stmt.Close()\<close> is deferred by every helper and its error is dropped.
\<close>

record ('c, 'v, 'r) NamedStmt =
  SelectContext :: "'c \<Rightarrow> 'v params \<Rightarrow> go_error + 'r list"
  GetContext :: "'c \<Rightarrow> 'v params \<Rightarrow> go_error + 'r"
  ExecContext :: "'c \<Rightarrow> 'v params \<Rightarrow> go_error + sql_Result"

text \<open>
  \<^verbatim>\<open>Queryer\<close>, of which the helpers call \<^verbatim>\<open>PrepareNamedContext(ctx, query)\<close> only.
\<close>

record ('c, 'v, 'r) Queryer =
  PrepareNamedContext :: "'c \<Rightarrow> string \<Rightarrow> go_error + ('c, 'v, 'r) NamedStmt"

section \<open>Query helpers\<close>

text \<open>
  \<^verbatim>\<open>QueryMultiple(ctx, queryer, query, params, dest)\<close>. \<open>dest\<close> is the destination slice
  on entry; the result is the returned error and the slice afterwards. The callers in
  postgres.go pass a nil slice, which a successful \<open>SelectContext\<close> fills with the rows.
\<close>

definition QueryMultiple ::
  "'c \<Rightarrow> ('c, 'v, 'r) Queryer \<Rightarrow> string \<Rightarrow> 'v params \<Rightarrow> 'r list \<Rightarrow> go_error option \<times> 'r list" where
  "QueryMultiple ctx queryer query params dest =
     (case PrepareNamedContext queryer ctx query of
        Inl err \<Rightarrow> (Some (Errorf F_prepare err), dest)
      | Inr stmt \<Rightarrow>
          (case SelectContext stmt ctx params of
             Inl err \<Rightarrow>
               (if errors_Is err SqlErrNoRows then (Some ErrNotFound, dest)
                else (Some (ErrorfV ErrInternal err), dest))
           | Inr rows \<Rightarrow> (None, dest @ rows)))"

text \<open>\<^verbatim>\<open>QuerySingle\<close>: the same with \<open>GetContext\<close> into a single destination.\<close>

definition QuerySingle ::
  "'c \<Rightarrow> ('c, 'v, 'r) Queryer \<Rightarrow> string \<Rightarrow> 'v params \<Rightarrow> 'r \<Rightarrow> go_error option \<times> 'r" where
  "QuerySingle ctx queryer query params dest =
     (case PrepareNamedContext queryer ctx query of
        Inl err \<Rightarrow> (Some (Errorf F_prepare err), dest)
      | Inr stmt \<Rightarrow>
          (case GetContext stmt ctx params of
             Inl err \<Rightarrow>
               (if errors_Is err SqlErrNoRows then (Some ErrNotFound, dest)
                else (Some (ErrorfV ErrInternal err), dest))
           | Inr v \<Rightarrow> (None, v)))"

text \<open>
  \<^verbatim>\<open>InsertRecord\<close>: the Go pair \<^verbatim>\<open>(int64, error)\<close> is the pair of the model.
\<close>

definition InsertRecord ::
  "'c \<Rightarrow> ('c, 'v, int64) Queryer \<Rightarrow> string \<Rightarrow> 'v params \<Rightarrow> int64 \<times> go_error option" where
  "InsertRecord ctx queryer query params =
     (case QueryMultiple ctx queryer query params [] of
        (Some err, ids) \<Rightarrow> (0, Some err)
      | (None, ids) \<Rightarrow>
          (if length ids > 0 then (ids ! 0, None)
           else (0, Some (Errorf F_not_added ErrInternal))))"

text \<open>
  \<^verbatim>\<open>UpdateRecord\<close>: an affected-row count below 1, like a count that is not available,
  is an error that wraps \<open>ErrInternal\<close>.
\<close>

definition UpdateRecord ::
  "'c \<Rightarrow> ('c, 'v, 'r) Queryer \<Rightarrow> string \<Rightarrow> 'v params \<Rightarrow> go_error option" where
  "UpdateRecord ctx queryer query params =
     (case PrepareNamedContext queryer ctx query of
        Inl err \<Rightarrow> Some (Errorf F_prepare err)
      | Inr stmt \<Rightarrow>
          (case ExecContext stmt ctx params of
             Inl err \<Rightarrow> Some (ErrorfV ErrInternal err)
           | Inr res \<Rightarrow>
               (case RowsAffected res of
                  Inl err \<Rightarrow> Some (ErrorfV ErrInternal err)
                | Inr rowsAffected \<Rightarrow>
                    (if sint rowsAffected < 1 then Some (Errorf F_not_updated ErrInternal)
                     else None))))"

definition UpdateRecordWithResultId ::
  "'c \<Rightarrow> ('c, 'v, int64) Queryer \<Rightarrow> string \<Rightarrow> 'v params \<Rightarrow> int64 \<times> go_error option" where
  "UpdateRecordWithResultId ctx queryer query params = InsertRecord ctx queryer query params"

text \<open>\<^verbatim>\<open>template.OnlyId\<close>.\<close>

record OnlyId =
  Id :: int64

text \<open>
  \<^verbatim>\<open>UpdateRecordWithResultListId\<close>: all the ids, and \<open>ErrNotUpdated\<close> itself when there
  is none. The nil slice of its error returns is the empty list.
\<close>

definition UpdateRecordWithResultListId ::
  "'c \<Rightarrow> ('c, 'v, OnlyId) Queryer \<Rightarrow> string \<Rightarrow> 'v params \<Rightarrow> OnlyId list \<times> go_error option" where
  "UpdateRecordWithResultListId ctx queryer query params =
     (case QueryMultiple ctx queryer query params [] of
        (Some err, ids) \<Rightarrow> ([], Some err)
      | (None, ids) \<Rightarrow> (if length ids > 0 then (ids, None) else ([], Some ErrNotUpdated)))"

text \<open>
  \<^verbatim>\<open>DeleteRecord\<close>. \<^verbatim>\<open>rowsAffected < 1\<close> compares a signed 64-bit count.
\<close>

definition DeleteRecord ::
  "'c \<Rightarrow> ('c, 'v, 'r) Queryer \<Rightarrow> string \<Rightarrow> 'v params \<Rightarrow> go_error option" where
  "DeleteRecord ctx queryer query params =
     (case PrepareNamedContext queryer ctx query of
        Inl err \<Rightarrow> Some (Errorf F_prepare err)
      | Inr stmt \<Rightarrow>
          (case ExecContext stmt ctx params of
             Inl err \<Rightarrow> Some (ErrorfV ErrInternal err)
           | Inr res \<Rightarrow>
               (case RowsAffected res of
                  Inl err \<Rightarrow> Some (ErrorfV ErrInternal err)
                | Inr rowsAffected \<Rightarrow>
                    (if sint rowsAffected < 1 then Some ErrNotFound else None))))"

text \<open>
  \<^verbatim>\<open>CheckExistence\<close>: \<^verbatim>\<open>var exists bool\<close> starts false; the error of \<open>QuerySingle\<close> is
  tested against \<^verbatim>\<open>sql.ErrNoRows\<close>.
\<close>

definition CheckExistence ::
  "'c \<Rightarrow> ('c, 'v, bool) Queryer \<Rightarrow> string \<Rightarrow> 'v params \<Rightarrow> bool \<times> go_error option" where
  "CheckExistence ctx queryer query params =
     (case QuerySingle ctx queryer query params False of
        (Some err, exists) \<Rightarrow>
          (if errors_Is err SqlErrNoRows then (False, None)
           else (False, Some (ErrorfV ErrInternal err)))
      | (None, exists) \<Rightarrow> (exists, None))"

text \<open>\<^verbatim>\<open>fmt.Sprintf(`SELECT EXISTS(%s) AS ex`, query)\<close>.\<close>

definition existsQuery :: "string \<Rightarrow> string" where
  "existsQuery query = ''SELECT EXISTS('' @ query @ '') AS ex''"

definition CheckExistenceWithError ::
  "'c \<Rightarrow> ('c, 'v, bool) Queryer \<Rightarrow> string \<Rightarrow> 'v params \<Rightarrow> go_error option" where
  "CheckExistenceWithError ctx queryer query params =
     (case CheckExistence ctx queryer (existsQuery query) params of
        (exists, Some err) \<Rightarrow> Some err
      | (exists, None) \<Rightarrow> (if exists then Some ErrAlreadyExists else None))"

text \<open>
  What a call does when it may panic: it returns a value, or it unwinds with a panic
  value. \<open>IndexOutOfRange i n\<close> is the runtime error of indexing a slice of length \<open>n\<close>
  at \<open>i\<close>; \<open>PanicValue\<close> is any other value passed to \<^verbatim>\<open>panic\<close>.
\<close>

datatype panic_value = IndexOutOfRange nat nat | PanicValue string

datatype 'a outcome = Returned 'a | Panicked panic_value

text \<open>
  Indexing a slice, \<^verbatim>\<open>xs[i]\<close>: the Go runtime checks the bound and panics outside it.
\<close>

definition slice_index :: "'a list \<Rightarrow> nat \<Rightarrow> 'a outcome" where
  "slice_index xs i =
     (if i < length xs then Returned (xs ! i) else Panicked (IndexOutOfRange i (length xs)))"

text \<open>
  \<^verbatim>\<open>AddRecord\<close>: \<^verbatim>\<open>res[0].Id\<close> is read with no test of the length.
\<close>

definition AddRecord ::
  "'c \<Rightarrow> ('c, 'v, OnlyId) Queryer \<Rightarrow> string \<Rightarrow> 'v params \<Rightarrow> (int64 \<times> go_error option) outcome" where
  "AddRecord ctx queryer query params =
     (case QueryMultiple ctx queryer query params [] of
        (Some err, res) \<Rightarrow> Returned (0, Some (Errorf F_add err))
      | (None, res) \<Rightarrow>
          (case slice_index res 0 of
             Panicked p \<Rightarrow> Panicked p
           | Returned r \<Rightarrow> Returned (Id r, None)))"

text \<open>
  \<^verbatim>\<open>ExecuteNonQuery\<close>: an affected-row count below 1 is an error that wraps
  \<open>ErrNotFound\<close>.
\<close>

definition ExecuteNonQuery ::
  "'c \<Rightarrow> ('c, 'v, 'r) Queryer \<Rightarrow> string \<Rightarrow> 'v params \<Rightarrow> go_error option" where
  "ExecuteNonQuery qCtx queryer query params =
     (case PrepareNamedContext queryer qCtx query of
        Inl err \<Rightarrow> Some (Errorf F_prepare err)
      | Inr stmt \<Rightarrow>
          (case ExecContext stmt qCtx params of
             Inl err \<Rightarrow> Some (ErrorfV ErrInternal err)
           | Inr res \<Rightarrow>
               (case RowsAffected res of
                  Inl err \<Rightarrow> Some (ErrorfV ErrInternal err)
                | Inr rowsAffected \<Rightarrow>
                    (if sint rowsAffected < 1 then Some (Errorf F_not_done ErrNotFound)
                     else None))))"

section \<open>Unit of work\<close>

text \<open>
  The calls a unit of work makes to the driver, in order: a transaction begun (with the
  number that identifies it), committed, rolled back, and a statement run by the
  caller's function on a transaction (\<open>Some n\<close>) or on the pool (\<open>None\<close>). The history
  of the connection is the list of these events.
\<close>

datatype event = EvBegin nat | EvCommit nat | EvRollback nat | EvQuery "nat option" string

type_synonym history = "event list"

text \<open>
  \<^verbatim>\<open>*sqlx.Tx\<close>: its number, and what the driver answers to \<^verbatim>\<open>Commit()\<close> and
  \<^verbatim>\<open>Rollback()\<close> after a given history.
\<close>

record sqlx_Tx =
  tx_id :: nat
  commit_result :: "history \<Rightarrow> go_error option"
  rollback_result :: "history \<Rightarrow> go_error option"

text \<open>
  \<^verbatim>\<open>*sqlx.DB\<close>: the bounds of the pool (\<open>maxLifetime\<close> in nanoseconds, as
  \<^verbatim>\<open>time.Duration\<close>), and what the driver answers to \<^verbatim>\<open>BeginTxx(ctx, nil)\<close> after a given
  history.
\<close>

record 'c sqlx_DB =
  maxOpen :: int
  maxIdle :: int
  maxLifetime :: int
  begin_result :: "'c \<Rightarrow> history \<Rightarrow> go_error + sqlx_Tx"

definition BeginTxx :: "'c sqlx_DB \<Rightarrow> 'c \<Rightarrow> history \<Rightarrow> (go_error + sqlx_Tx) \<times> history" where
  "BeginTxx d ctx h =
     (case begin_result d ctx h of
        Inl err \<Rightarrow> (Inl err, h)
      | Inr t \<Rightarrow> (Inr t, h @ [EvBegin (tx_id t)]))"

definition Commit :: "sqlx_Tx \<Rightarrow> history \<Rightarrow> go_error option \<times> history" where
  "Commit t h = (commit_result t h, h @ [EvCommit (tx_id t)])"

definition Rollback :: "sqlx_Tx \<Rightarrow> history \<Rightarrow> go_error option \<times> history" where
  "Rollback t h = (rollback_result t h, h @ [EvRollback (tx_id t)])"

text \<open>
  A transaction is active when it was begun and has been neither committed nor rolled
  back.
\<close>

definition tx_active :: "history \<Rightarrow> nat \<Rightarrow> bool" where
  "tx_active h n = (EvBegin n \<in> set h \<and> EvCommit n \<notin> set h \<and> EvRollback n \<notin> set h)"

text \<open>\<^verbatim>\<open>PostgresUnitOfWork\<close>; the nil \<open>tx\<close> is \<open>None\<close>.\<close>

record 'c PostgresUnitOfWork =
  db :: "'c sqlx_DB"
  tx :: "sqlx_Tx option"

definition NewUnitOfWork :: "'c sqlx_DB \<Rightarrow> 'c PostgresUnitOfWork" where
  "NewUnitOfWork d = \<lparr>db = d, tx = None\<rparr>"

text \<open>
  The value \<^verbatim>\<open>GetQueryer()\<close> returns behind the Queryer interface: the transaction or
  the pool.
\<close>

datatype 'c queryer_of = TxQueryer sqlx_Tx | DbQueryer "'c sqlx_DB"

definition GetQueryer :: "'c PostgresUnitOfWork \<Rightarrow> 'c queryer_of" where
  "GetQueryer uow = (case tx uow of Some t \<Rightarrow> TxQueryer t | None \<Rightarrow> DbQueryer (db uow))"

text \<open>
  The function passed to \<open>Do\<close> receives the unit of work (a pointer in Go, so it can
  change it through a nested \<open>Do\<close>) and the history; it returns an error or nil, or it
  panics.
\<close>

type_synonym 'c work =
  "'c PostgresUnitOfWork \<Rightarrow> history \<Rightarrow> go_error option outcome \<times> 'c PostgresUnitOfWork \<times> history"

text \<open>
  \<^verbatim>\<open>Do\<close>. The deferred function runs when \<open>fn\<close> has returned or panicked: a recovered
  panic rolls back and panics again with the recovered value, a non-nil \<open>err\<close> rolls
  back, and otherwise \<open>err\<close> becomes the result of \<^verbatim>\<open>tx.Commit()\<close>. The results of the
  two \<^verbatim>\<open>Rollback()\<close> calls are dropped. The deferred function uses the local \<open>tx\<close>,
  not the field.
\<close>

definition Do ::
  "'c PostgresUnitOfWork \<Rightarrow> 'c \<Rightarrow> 'c work \<Rightarrow> history \<Rightarrow>
     go_error option outcome \<times> 'c PostgresUnitOfWork \<times> history" where
  "Do uow ctx fn h =
     (case BeginTxx (db uow) ctx h of
        (Inl err, h1) \<Rightarrow> (Returned (Some err), uow, h1)
      | (Inr t, h1) \<Rightarrow>
          (case fn (uow\<lparr>tx := Some t\<rparr>) h1 of
             (Panicked p, uow2, h2) \<Rightarrow>
               (case Rollback t h2 of (r, h3) \<Rightarrow> (Panicked p, uow2, h3))
           | (Returned (Some err), uow2, h2) \<Rightarrow>
               (case Rollback t h2 of (r, h3) \<Rightarrow> (Returned (Some err), uow2, h3))
           | (Returned None, uow2, h2) \<Rightarrow>
               (case Commit t h2 of (r, h3) \<Rightarrow> (Returned r, uow2, h3))))"

section \<open>Connecting\<close>

definition MaxRetries :: nat where
  "MaxRetries = 50"

text \<open>\<^verbatim>\<open>time.Duration\<close> counts nanoseconds.\<close>

definition Second :: int where
  "Second = 1000000000"

definition Minute :: int where
  "Minute = 60 * Second"

definition RetryInterval :: int where
  "RetryInterval = 5 * Second"

definition MaxOpenConns :: int where
  "MaxOpenConns = 5"

definition MaxIdleConns :: int where
  "MaxIdleConns = 5"

definition ConnMaxLifetime :: int where
  "ConnMaxLifetime = 5 * Minute"

text \<open>
  What \<open>InitDB\<close> does that can be seen from outside, in order: a call of \<open>connectDB\<close>
  with its DSN, and a \<^verbatim>\<open>time.Sleep\<close> with its duration.
\<close>

datatype conn_event = EvConnect string | EvSleep int

text \<open>
  The network and the server, by what they answer after a given sequence of earlier
  attempts and sleeps: \<^verbatim>\<open>sqlx.Open("pgx", dsn)\<close> gives a driver error or a handle, and
  \<^verbatim>\<open>db.PingContext(ctx)\<close> on that handle gives a driver error or nil.
\<close>

record 'c network =
  sqlx_Open :: "string \<Rightarrow> conn_event list \<Rightarrow> go_error + 'c sqlx_DB"
  PingContext :: "'c sqlx_DB \<Rightarrow> conn_event list \<Rightarrow> go_error option"

definition connectDB ::
  "'c network \<Rightarrow> string \<Rightarrow> conn_event list \<Rightarrow> (go_error + 'c sqlx_DB) \<times> conn_event list" where
  "connectDB net dsn tr =
     (case sqlx_Open net dsn tr of
        Inl err \<Rightarrow> (Inl (Errorf F_open err), tr @ [EvConnect dsn])
      | Inr d \<Rightarrow>
          (case PingContext net d tr of
             Some err \<Rightarrow> (Inl (Errorf F_ping err), tr @ [EvConnect dsn])
           | None \<Rightarrow> (Inr d, tr @ [EvConnect dsn])))"

text \<open>
  The three setters of the pool that \<open>InitDB\<close> calls on a handle that answered.
\<close>

definition configure_pool :: "'c sqlx_DB \<Rightarrow> 'c sqlx_DB" where
  "configure_pool d =
     d\<lparr>maxOpen := MaxOpenConns, maxIdle := MaxIdleConns, maxLifetime := ConnMaxLifetime\<rparr>"

text \<open>
  The loop of \<open>InitDB\<close> from the counter \<open>i\<close>, with the variable \<open>err\<close> (nil before the
  first attempt) and the events so far. The result is the Go pair \<^verbatim>\<open>(*sqlx.DB, error)\<close>
  and the events.
\<close>

function InitDB_loop ::
  "'c network \<Rightarrow> string \<Rightarrow> nat \<Rightarrow> go_error option \<Rightarrow> conn_event list \<Rightarrow>
     ('c sqlx_DB option \<times> go_error option) \<times> conn_event list" where
  "InitDB_loop net dsn i err tr =
     (if i < MaxRetries then
        (case connectDB net dsn tr of
           (Inr d, tr1) \<Rightarrow> ((Some (configure_pool d), None), tr1)
         | (Inl err1, tr1) \<Rightarrow>
             InitDB_loop net dsn (i + 1) (Some err1) (tr1 @ [EvSleep RetryInterval]))
      else
        ((None,
          Some (case err of
                  Some err1 \<Rightarrow> Errorf (F_retries MaxRetries) err1
                | None \<Rightarrow> ErrorfNil (F_retries MaxRetries))),
         tr))"
  by pat_completeness auto
termination
  by (relation "measure (\<lambda>(net, dsn, i, err, tr). MaxRetries - i)") auto

definition InitDB ::
  "'c network \<Rightarrow> string \<Rightarrow> ('c sqlx_DB option \<times> go_error option) \<times> conn_event list" where
  "InitDB net dsn = InitDB_loop net dsn 0 None []"

text \<open>
  The events after \<open>k\<close> failed attempts in a row: each attempt is followed by one sleep
  of \<open>RetryInterval\<close>.
\<close>

definition failed_attempts :: "string \<Rightarrow> nat \<Rightarrow> conn_event list" where
  "failed_attempts dsn k = concat (replicate k [EvConnect dsn, EvSleep RetryInterval])"

text \<open>The number of \<open>connectDB\<close> calls among the events.\<close>

fun is_connect :: "conn_event \<Rightarrow> bool" where
  "is_connect (EvConnect dsn) = True"
| "is_connect (EvSleep d) = False"

definition attempts :: "conn_event list \<Rightarrow> nat" where
  "attempts tr = length (filter is_connect tr)"

section \<open>Example drivers\<close>

text \<open>
  Concrete statements, queryers, handles and networks, on which the theorems below are
  instantiated. Contexts and parameter values are of type \<open>unit\<close> here.
\<close>

definition fixed_stmt ::
  "go_error + 'r list \<Rightarrow> go_error + 'r \<Rightarrow> go_error + sql_Result \<Rightarrow> (unit, unit, 'r) NamedStmt" where
  "fixed_stmt sel get ex =
     \<lparr>SelectContext = (\<lambda>ctx params. sel), GetContext = (\<lambda>ctx params. get),
      ExecContext = (\<lambda>ctx params. ex)\<rparr>"

definition fixed_queryer :: "(unit, unit, 'r) NamedStmt \<Rightarrow> (unit, unit, 'r) Queryer" where
  "fixed_queryer stmt = \<lparr>PrepareNamedContext = (\<lambda>ctx query. Inr stmt)\<rparr>"

text \<open>A statement that finds no row, and one whose select succeeds with the given rows.\<close>

definition no_rows_stmt :: "(unit, unit, 'r) NamedStmt" where
  "no_rows_stmt = fixed_stmt (Inl SqlErrNoRows) (Inl SqlErrNoRows) (Inr \<lparr>RowsAffected = Inr 0\<rparr>)"

definition rows_stmt :: "'r list \<Rightarrow> (unit, unit, 'r) NamedStmt" where
  "rows_stmt rows = fixed_stmt (Inr rows) (Inl SqlErrNoRows) (Inr \<lparr>RowsAffected = Inr 0\<rparr>)"

text \<open>A statement that affects \<open>n\<close> rows when executed.\<close>

definition exec_stmt :: "int64 \<Rightarrow> (unit, unit, 'r) NamedStmt" where
  "exec_stmt n = fixed_stmt (Inr []) (Inl SqlErrNoRows) (Inr \<lparr>RowsAffected = Inr n\<rparr>)"

text \<open>
  A server that knows two queries, as PostgreSQL answers them: \<^verbatim>\<open>select false\<close> yields
  one row holding false, and \<^verbatim>\<open>SELECT EXISTS(select false) AS ex\<close> yields one row
  holding true, since the inner query has a row.
\<close>

definition literal_queryer :: "(unit, unit, bool) Queryer" where
  "literal_queryer =
     \<lparr>PrepareNamedContext = (\<lambda>ctx query.
        if query = ''select false'' then
          Inr (fixed_stmt (Inr [False]) (Inr False) (Inr \<lparr>RowsAffected = Inr 1\<rparr>))
        else if query = ''SELECT EXISTS(select false) AS ex'' then
          Inr (fixed_stmt (Inr [True]) (Inr True) (Inr \<lparr>RowsAffected = Inr 1\<rparr>))
        else Inl (DriverError ''syntax error''))\<rparr>"

text \<open>
  A transaction whose commit and rollback succeed, and a pool that begins such a
  transaction, numbered by the length of the history.
\<close>

definition plain_tx :: "nat \<Rightarrow> sqlx_Tx" where
  "plain_tx n = \<lparr>tx_id = n, commit_result = (\<lambda>h. None), rollback_result = (\<lambda>h. None)\<rparr>"

definition plain_db :: "unit sqlx_DB" where
  "plain_db =
     \<lparr>maxOpen = 0, maxIdle = 2, maxLifetime = 0,
      begin_result = (\<lambda>ctx h. Inr (plain_tx (length h)))\<rparr>"

text \<open>
  Three functions for \<open>Do\<close>: each runs one statement on the queryer of the unit of
  work; the first returns nil, the second an error, the third panics.
\<close>

definition insert_ok :: "unit work" where
  "insert_ok uow h =
     (Returned None, uow, h @ [EvQuery (map_option tx_id (tx uow)) ''insert into t values (1)''])"

definition insert_fails :: "unit work" where
  "insert_fails uow h =
     (Returned (Some (ErrorfV ErrInternal (DriverError ''unique violation''))), uow,
      h @ [EvQuery (map_option tx_id (tx uow)) ''insert into t values (1)''])"

definition insert_panics :: "unit work" where
  "insert_panics uow h =
     (Panicked (IndexOutOfRange 0 0), uow,
      h @ [EvQuery (map_option tx_id (tx uow)) ''insert into t values (1) returning id''])"

text \<open>
  Two networks on which \<^verbatim>\<open>sqlx.Open\<close> always gives the handle \<open>plain_db\<close>, since
  opening does not connect, and the refusal shows in \<^verbatim>\<open>PingContext\<close>: on the first the
  server refuses the first \<open>n\<close> attempts and answers the later ones, on the second it
  refuses every attempt.
\<close>

definition net_up_after :: "nat \<Rightarrow> unit network" where
  "net_up_after n =
     \<lparr>sqlx_Open = (\<lambda>dsn tr. Inr plain_db),
      PingContext = (\<lambda>d tr.
        if attempts tr < n then Some (DriverError ''connection refused'') else None)\<rparr>"

definition net_down :: "unit network" where
  "net_down =
     \<lparr>sqlx_Open = (\<lambda>dsn tr. Inr plain_db),
      PingContext = (\<lambda>d tr. Some (DriverError ''connection refused''))\<rparr>"

section \<open>Properties of the query helpers\<close>

declare InitDB_loop.simps [simp del]

lemma errors_Is_refl: "errors_Is err err"
  by (cases err) simp_all

lemma CheckExistence_error_Internal:
  assumes "CheckExistence ctx queryer query params = (b, Some err)"
  shows "\<exists>v. err = ErrorfV ErrInternal v"
  using assms
  by (auto simp: CheckExistence_def split: prod.splits option.splits if_splits)

text \<open>
  C4 (code bug). The claim: when the underlying query reports the driver's no-rows
  outcome, \<open>CheckExistence\<close> returns false with a nil error. The code: \<open>QuerySingle\<close> has
  already turned \<^verbatim>\<open>sql.ErrNoRows\<close> into \<open>ErrNotFound\<close>, so the test
  \<^verbatim>\<open>errors.Is(err, sql.ErrNoRows)\<close> of \<open>CheckExistence\<close> fails and the call returns false
  with the non-nil error that wraps \<open>ErrInternal\<close>.
\<close>

theorem CheckExistence_no_rows_is_Internal:
  assumes "PrepareNamedContext queryer ctx query = Inr stmt"
    and "GetContext stmt ctx params = Inl err"
    and "errors_Is err SqlErrNoRows"
  shows "CheckExistence ctx queryer query params = (False, Some (ErrorfV ErrInternal ErrNotFound))"
  using assms by (simp add: CheckExistence_def QuerySingle_def)

theorem CheckExistence_no_rows_is_Internal_witness:
  "CheckExistence () (fixed_queryer no_rows_stmt) ''select true from t where id = :id'' Map.empty
     = (False, Some (ErrorfV ErrInternal ErrNotFound))
   \<and> errors_Is (ErrorfV ErrInternal ErrNotFound) ErrInternal"
  using CheckExistence_no_rows_is_Internal
    [of "fixed_queryer no_rows_stmt" "()" "''select true from t where id = :id''" no_rows_stmt
      Map.empty SqlErrNoRows]
  by (simp add: fixed_queryer_def no_rows_stmt_def fixed_stmt_def)

text \<open>
  C5 (counterexample). The claim, as stated: \<open>CheckExistenceWithError\<close> returns
  \<open>ErrAlreadyExists\<close> exactly when \<open>CheckExistence\<close> on the same template and parameters
  returns true. On the template \<^verbatim>\<open>select false\<close> the first returns \<open>ErrAlreadyExists\<close>
  and the second returns false: only \<open>CheckExistenceWithError\<close> wraps the template in
  \<^verbatim>\<open>SELECT EXISTS(...)\<close>.
\<close>

theorem CheckExistenceWithError_same_template_counterexample:
  "\<not> (CheckExistenceWithError () literal_queryer ''select false'' Map.empty = Some ErrAlreadyExists
      \<longleftrightarrow> fst (CheckExistence () literal_queryer ''select false'' Map.empty) = True)"
  by (simp add: CheckExistenceWithError_def CheckExistence_def QuerySingle_def existsQuery_def
      literal_queryer_def fixed_stmt_def)

text \<open>
  C5 (amended). \<open>CheckExistenceWithError\<close> on a template returns \<open>ErrAlreadyExists\<close>
  exactly when \<open>CheckExistence\<close> on the template wrapped as
  \<^verbatim>\<open>SELECT EXISTS(<template>) AS ex\<close>, with the same parameters, returns true with a nil
  error; it returns nil exactly when that call returns false with a nil error.
\<close>

theorem CheckExistenceWithError_iff_wrapped:
  "(CheckExistenceWithError ctx queryer query params = Some ErrAlreadyExists
      \<longleftrightarrow> CheckExistence ctx queryer (existsQuery query) params = (True, None))
   \<and> (CheckExistenceWithError ctx queryer query params = None
      \<longleftrightarrow> CheckExistence ctx queryer (existsQuery query) params = (False, None))"
proof (cases "CheckExistence ctx queryer (existsQuery query) params")
  case (Pair b r)
  show ?thesis
  proof (cases r)
    case None
    with Pair show ?thesis by (simp add: CheckExistenceWithError_def)
  next
    case (Some err)
    with Pair have "CheckExistence ctx queryer (existsQuery query) params = (b, Some err)"
      by simp
    from CheckExistence_error_Internal [OF this]
    obtain v where "err = ErrorfV ErrInternal v" by blast
    with Pair Some show ?thesis by (simp add: CheckExistenceWithError_def)
  qed
qed

theorem CheckExistenceWithError_iff_wrapped_witness:
  "CheckExistenceWithError () literal_queryer ''select false'' Map.empty = Some ErrAlreadyExists
   \<and> CheckExistence () literal_queryer (existsQuery ''select false'') Map.empty = (True, None)
   \<and> CheckExistenceWithError () (fixed_queryer (fixed_stmt (Inr []) (Inr False) (Inl SqlErrNoRows)))
         ''select 1 from t where id = :id'' Map.empty = None"
  using CheckExistenceWithError_iff_wrapped [of "()" literal_queryer "''select false''" Map.empty]
    CheckExistenceWithError_iff_wrapped
      [of "()" "fixed_queryer (fixed_stmt (Inr []) (Inr False) (Inl SqlErrNoRows))"
        "''select 1 from t where id = :id''" Map.empty]
  by (simp add: CheckExistence_def QuerySingle_def existsQuery_def literal_queryer_def
      fixed_queryer_def fixed_stmt_def)

text \<open>
  C6. When the statement is prepared and executed without a driver error and the
  affected-row count is available, \<open>DeleteRecord\<close> returns \<open>ErrNotFound\<close> for the count 0
  and nil for a count of at least 1.
\<close>

theorem DeleteRecord_NotFound_or_nil:
  assumes "PrepareNamedContext queryer ctx query = Inr stmt"
    and "ExecContext stmt ctx params = Inr res"
    and "RowsAffected res = Inr n"
  shows "(n = 0 \<longrightarrow> DeleteRecord ctx queryer query params = Some ErrNotFound)
       \<and> (1 \<le> sint n \<longrightarrow> DeleteRecord ctx queryer query params = None)"
  using assms by (simp add: DeleteRecord_def)

theorem DeleteRecord_NotFound_or_nil_witness:
  "DeleteRecord () (fixed_queryer (exec_stmt 0 :: (unit, unit, unit) NamedStmt))
      ''delete from t where id = :id'' Map.empty = Some ErrNotFound
   \<and> DeleteRecord () (fixed_queryer (exec_stmt 1 :: (unit, unit, unit) NamedStmt))
      ''delete from t where id = :id'' Map.empty = None"
  using DeleteRecord_NotFound_or_nil
      [of "fixed_queryer (exec_stmt 0 :: (unit, unit, unit) NamedStmt)" "()"
        "''delete from t where id = :id''" "exec_stmt 0" Map.empty "\<lparr>RowsAffected = Inr 0\<rparr>" 0]
    DeleteRecord_NotFound_or_nil
      [of "fixed_queryer (exec_stmt 1 :: (unit, unit, unit) NamedStmt)" "()"
        "''delete from t where id = :id''" "exec_stmt 1" Map.empty "\<lparr>RowsAffected = Inr 1\<rparr>" 1]
  by (simp add: fixed_queryer_def exec_stmt_def fixed_stmt_def)

text \<open>
  C7. When the query of \<open>InsertRecord\<close> executes without error (\<open>QueryMultiple\<close> returns
  nil and the ids): a non-empty sequence gives its first id with a nil error, and an
  empty one gives an error that wraps \<open>ErrInternal\<close>.
\<close>

theorem InsertRecord_first_id_or_Internal:
  assumes "QueryMultiple ctx queryer query params [] = (None, ids)"
  shows "(ids \<noteq> [] \<longrightarrow> InsertRecord ctx queryer query params = (hd ids, None))
       \<and> (ids = [] \<longrightarrow>
            InsertRecord ctx queryer query params = (0, Some (Errorf F_not_added ErrInternal))
            \<and> errors_Is (Errorf F_not_added ErrInternal) ErrInternal)"
  using assms by (simp add: InsertRecord_def hd_conv_nth)

theorem InsertRecord_first_id_or_Internal_witness:
  "InsertRecord () (fixed_queryer (rows_stmt [7, 8])) ''insert into t default values returning id''
      Map.empty = (7, None)
   \<and> InsertRecord () (fixed_queryer (rows_stmt [])) ''insert into t default values returning id''
      Map.empty = (0, Some (Errorf F_not_added ErrInternal))"
  using InsertRecord_first_id_or_Internal
      [of "()" "fixed_queryer (rows_stmt [7, 8])" "''insert into t default values returning id''"
        Map.empty "[7, 8]"]
    InsertRecord_first_id_or_Internal
      [of "()" "fixed_queryer (rows_stmt [])" "''insert into t default values returning id''"
        Map.empty "[]"]
  by (simp add: QueryMultiple_def fixed_queryer_def rows_stmt_def fixed_stmt_def)

text \<open>
  C9. \<open>AddRecord\<close> has no emptiness guard: whenever its query executes without error
  and returns no row, it indexes the empty result and panics with the runtime's
  index-out-of-range error, where \<open>InsertRecord\<close> on such an outcome returns an error.
  The witness gives an input on which this happens.
\<close>

theorem AddRecord_panics_on_empty_result:
  assumes "QueryMultiple ctx queryer query params [] = (None, [])"
    and "QueryMultiple ctx queryer' query params [] = (None, [])"
  shows "AddRecord ctx queryer query params = Panicked (IndexOutOfRange 0 0)
       \<and> InsertRecord ctx queryer' query params = (0, Some (Errorf F_not_added ErrInternal))"
  using assms by (simp add: AddRecord_def slice_index_def InsertRecord_def)

theorem AddRecord_panics_on_empty_result_witness:
  "QueryMultiple () (fixed_queryer (rows_stmt [])) ''insert into t select 1 where false returning id''
      Map.empty ([] :: OnlyId list) = (None, [])
   \<and> AddRecord () (fixed_queryer (rows_stmt [])) ''insert into t select 1 where false returning id''
      Map.empty = Panicked (IndexOutOfRange 0 0)"
  using AddRecord_panics_on_empty_result
      [of "()" "fixed_queryer (rows_stmt [])" "''insert into t select 1 where false returning id''"
        Map.empty "fixed_queryer (rows_stmt [])"]
  by (simp add: QueryMultiple_def fixed_queryer_def rows_stmt_def fixed_stmt_def)

text \<open>
  The sibling that returns all the ids does answer an empty result with \<open>ErrNotUpdated\<close>.
\<close>

lemma UpdateRecordWithResultListId_empty:
  assumes "QueryMultiple ctx queryer query params [] = (None, [])"
  shows "UpdateRecordWithResultListId ctx queryer query params = ([], Some ErrNotUpdated)"
  using assms by (simp add: UpdateRecordWithResultListId_def)

text \<open>
  C10. \<open>UpdateRecordWithResultId\<close> returns what \<open>InsertRecord\<close> returns on the same
  inputs; when the query succeeds with no row its error wraps \<open>ErrInternal\<close> and is not
  \<open>ErrNotUpdated\<close>.
\<close>

theorem UpdateRecordWithResultId_is_InsertRecord:
  "UpdateRecordWithResultId ctx queryer query params = InsertRecord ctx queryer query params
   \<and> (QueryMultiple ctx queryer query params [] = (None, []) \<longrightarrow>
        UpdateRecordWithResultId ctx queryer query params
          = (0, Some (Errorf F_not_added ErrInternal))
        \<and> errors_Is (Errorf F_not_added ErrInternal) ErrInternal
        \<and> \<not> errors_Is (Errorf F_not_added ErrInternal) ErrNotUpdated)"
  by (simp add: UpdateRecordWithResultId_def InsertRecord_def)

theorem UpdateRecordWithResultId_is_InsertRecord_witness:
  "UpdateRecordWithResultId () (fixed_queryer (rows_stmt [])) ''update t set x = 1 returning id''
      Map.empty = (0, Some (Errorf F_not_added ErrInternal))
   \<and> UpdateRecordWithResultId () (fixed_queryer (rows_stmt [4])) ''update t set x = 1 returning id''
      Map.empty = (4, None)"
  using UpdateRecordWithResultId_is_InsertRecord
      [of "()" "fixed_queryer (rows_stmt [])" "''update t set x = 1 returning id''" Map.empty]
    UpdateRecordWithResultId_is_InsertRecord
      [of "()" "fixed_queryer (rows_stmt [4])" "''update t set x = 1 returning id''" Map.empty]
  by (simp add: InsertRecord_def QueryMultiple_def fixed_queryer_def rows_stmt_def fixed_stmt_def)

section \<open>Properties of the unit of work\<close>

lemma GetQueryer_new: "GetQueryer (NewUnitOfWork d) = DbQueryer d"
  by (simp add: GetQueryer_def NewUnitOfWork_def)

lemma GetQueryer_in_transaction: "GetQueryer (uow\<lparr>tx := Some t\<rparr>) = TxQueryer t"
  by (simp add: GetQueryer_def)

lemma Do_begin_failed:
  assumes "BeginTxx (db uow) ctx h = (Inl err, h1)"
  shows "Do uow ctx fn h = (Returned (Some err), uow, h1)"
  using assms by (simp add: Do_def)

text \<open>
  C1. In a \<open>Do\<close> call whose \<open>BeginTxx\<close> succeeds with the transaction \<open>t\<close> and whose
  function returns: when the function returns nil, \<open>Do\<close> calls \<^verbatim>\<open>tx.Commit()\<close> on \<open>t\<close>
  as its last step and returns what the commit returns; when the function returns a
  non-nil error, \<open>Do\<close> calls \<^verbatim>\<open>tx.Rollback()\<close> on \<open>t\<close> as its last step and returns that
  same error.
\<close>

theorem Do_commits_or_rolls_back:
  assumes "BeginTxx (db uow) ctx h = (Inr t, h1)"
    and "fn (uow\<lparr>tx := Some t\<rparr>) h1 = (Returned r, uow2, h2)"
  shows "(r = None \<longrightarrow>
            Do uow ctx fn h = (Returned (commit_result t h2), uow2, h2 @ [EvCommit (tx_id t)]))
       \<and> (r \<noteq> None \<longrightarrow>
            Do uow ctx fn h = (Returned r, uow2, h2 @ [EvRollback (tx_id t)]))"
  using assms by (auto simp: Do_def Commit_def Rollback_def)

theorem Do_commits_or_rolls_back_witness:
  "Do (NewUnitOfWork plain_db) () insert_ok []
     = (Returned None, \<lparr>db = plain_db, tx = Some (plain_tx 0)\<rparr>,
        [EvBegin 0, EvQuery (Some 0) ''insert into t values (1)'', EvCommit 0])
   \<and> Do (NewUnitOfWork plain_db) () insert_fails []
     = (Returned (Some (ErrorfV ErrInternal (DriverError ''unique violation''))),
        \<lparr>db = plain_db, tx = Some (plain_tx 0)\<rparr>,
        [EvBegin 0, EvQuery (Some 0) ''insert into t values (1)'', EvRollback 0])"
  using Do_commits_or_rolls_back
      [of "NewUnitOfWork plain_db" "()" "[]" "plain_tx 0" "[EvBegin 0]" insert_ok None
        "\<lparr>db = plain_db, tx = Some (plain_tx 0)\<rparr>"
        "[EvBegin 0, EvQuery (Some 0) ''insert into t values (1)'']"]
    Do_commits_or_rolls_back
      [of "NewUnitOfWork plain_db" "()" "[]" "plain_tx 0" "[EvBegin 0]" insert_fails
        "Some (ErrorfV ErrInternal (DriverError ''unique violation''))"
        "\<lparr>db = plain_db, tx = Some (plain_tx 0)\<rparr>"
        "[EvBegin 0, EvQuery (Some 0) ''insert into t values (1)'']"]
  by (simp add: BeginTxx_def NewUnitOfWork_def plain_db_def plain_tx_def insert_ok_def
      insert_fails_def)

text \<open>
  C2. In a \<open>Do\<close> call whose \<open>BeginTxx\<close> succeeds with the transaction \<open>t\<close> and whose
  function panics with the value \<open>p\<close>, \<open>Do\<close> panics with \<open>p\<close>, and when it does the
  call of \<^verbatim>\<open>tx.Rollback()\<close> on \<open>t\<close> has been made: it is the last event of the history
  with which the panic leaves \<open>Do\<close>.
\<close>

theorem Do_panic_rolls_back_then_repanics:
  assumes "BeginTxx (db uow) ctx h = (Inr t, h1)"
    and "fn (uow\<lparr>tx := Some t\<rparr>) h1 = (Panicked p, uow2, h2)"
  shows "Do uow ctx fn h = (Panicked p, uow2, h2 @ [EvRollback (tx_id t)])"
  using assms by (simp add: Do_def Rollback_def)

theorem Do_panic_rolls_back_then_repanics_witness:
  "Do (NewUnitOfWork plain_db) () insert_panics []
     = (Panicked (IndexOutOfRange 0 0), \<lparr>db = plain_db, tx = Some (plain_tx 0)\<rparr>,
        [EvBegin 0, EvQuery (Some 0) ''insert into t values (1) returning id'', EvRollback 0])"
  using Do_panic_rolls_back_then_repanics
      [of "NewUnitOfWork plain_db" "()" "[]" "plain_tx 0" "[EvBegin 0]" insert_panics
        "IndexOutOfRange 0 0" "\<lparr>db = plain_db, tx = Some (plain_tx 0)\<rparr>"
        "[EvBegin 0, EvQuery (Some 0) ''insert into t values (1) returning id'']"]
  by (simp add: BeginTxx_def NewUnitOfWork_def plain_db_def plain_tx_def insert_panics_def)

text \<open>
  C3 (code bug). The claim: \<open>GetQueryer\<close> returns the transaction's Queryer exactly
  while a transaction is active, and the pool's Queryer in every other state, also
  after a \<open>Do\<close> call has completed. The code: \<open>Do\<close> stores the transaction in the field
  \<open>tx\<close> and never clears it, so after a \<open>Do\<close> whose function returned (and left the
  field alone) \<open>GetQueryer\<close> still returns that transaction, which is no longer active.
\<close>

theorem GetQueryer_after_Do_is_finished_tx:
  assumes "BeginTxx (db uow) ctx h = (Inr t, h1)"
    and "fn (uow\<lparr>tx := Some t\<rparr>) h1 = (Returned r, uow2, h2)"
    and "tx uow2 = Some t"
    and "Do uow ctx fn h = (res, uow3, h3)"
  shows "GetQueryer uow3 = TxQueryer t \<and> \<not> tx_active h3 (tx_id t)"
  using assms
  by (cases r) (auto simp: Do_def Commit_def Rollback_def GetQueryer_def tx_active_def)

theorem GetQueryer_after_Do_is_finished_tx_witness:
  "GetQueryer (NewUnitOfWork plain_db) = DbQueryer plain_db
   \<and> Do (NewUnitOfWork plain_db) () insert_ok []
     = (Returned None, \<lparr>db = plain_db, tx = Some (plain_tx 0)\<rparr>,
        [EvBegin 0, EvQuery (Some 0) ''insert into t values (1)'', EvCommit 0])
   \<and> GetQueryer \<lparr>db = plain_db, tx = Some (plain_tx 0)\<rparr> = TxQueryer (plain_tx 0)
   \<and> \<not> tx_active [EvBegin 0, EvQuery (Some 0) ''insert into t values (1)'', EvCommit 0] 0"
  using GetQueryer_after_Do_is_finished_tx
      [of "NewUnitOfWork plain_db" "()" "[]" "plain_tx 0" "[EvBegin 0]" insert_ok None
        "\<lparr>db = plain_db, tx = Some (plain_tx 0)\<rparr>"
        "[EvBegin 0, EvQuery (Some 0) ''insert into t values (1)'']"
        "Returned None" "\<lparr>db = plain_db, tx = Some (plain_tx 0)\<rparr>"
        "[EvBegin 0, EvQuery (Some 0) ''insert into t values (1)'', EvCommit 0]"]
  by (simp add: Do_def BeginTxx_def Commit_def NewUnitOfWork_def GetQueryer_def plain_db_def
      plain_tx_def insert_ok_def tx_active_def)

section \<open>Properties of the connection loop\<close>

lemma failed_attempts_Suc:
  "failed_attempts dsn (Suc k) = failed_attempts dsn k @ [EvConnect dsn, EvSleep RetryInterval]"
  unfolding failed_attempts_def
  by (induction k) simp_all

lemma attempts_failed_attempts: "attempts (failed_attempts dsn k) = k"
  by (induction k) (simp_all add: failed_attempts_Suc attempts_def, simp add: failed_attempts_def)

lemma connectDB_events: "snd (connectDB net dsn tr) = tr @ [EvConnect dsn]"
  by (simp add: connectDB_def split: sum.splits option.splits)

lemma loop_success:
  assumes "i < MaxRetries" and "fst (connectDB net dsn tr) = Inr d"
  shows "InitDB_loop net dsn i err tr = ((Some (configure_pool d), None), tr @ [EvConnect dsn])"
proof -
  have "connectDB net dsn tr = (Inr d, tr @ [EvConnect dsn])"
    using assms(2) connectDB_events [of net dsn tr] by (cases "connectDB net dsn tr") simp
  with assms(1) show ?thesis
    by (subst InitDB_loop.simps) simp
qed

lemma loop_failure:
  assumes "i < MaxRetries" and "fst (connectDB net dsn tr) = Inl e"
  shows "InitDB_loop net dsn i err tr
       = InitDB_loop net dsn (Suc i) (Some e) (tr @ [EvConnect dsn, EvSleep RetryInterval])"
proof -
  have "connectDB net dsn tr = (Inl e, tr @ [EvConnect dsn])"
    using assms(2) connectDB_events [of net dsn tr] by (cases "connectDB net dsn tr") simp
  with assms(1) show ?thesis
    by (subst InitDB_loop.simps) simp
qed

lemma loop_exhausted:
  "InitDB_loop net dsn MaxRetries (Some e) tr
     = ((None, Some (Errorf (F_retries MaxRetries) e)), tr)"
  by (subst InitDB_loop.simps) simp

text \<open>
  Failed attempts from \<open>i\<close> up to \<open>j\<close> take the loop from the counter \<open>i\<close> to the counter
  \<open>j\<close>, with the error of the last of them in \<open>err\<close>.
\<close>

lemma loop_skip_failures:
  assumes "\<forall>k. i \<le> k \<and> k < j \<longrightarrow> fst (connectDB net dsn (failed_attempts dsn k)) = Inl (e k)"
    and "i < j" and "j \<le> MaxRetries"
  shows "InitDB_loop net dsn i err (failed_attempts dsn i)
       = InitDB_loop net dsn j (Some (e (j - 1))) (failed_attempts dsn j)"
  using assms
proof (induction "j - i" arbitrary: i err)
  case 0
  then show ?case by simp
next
  case (Suc n)
  have "fst (connectDB net dsn (failed_attempts dsn i)) = Inl (e i)"
    using Suc.prems by simp
  with Suc.prems have step: "InitDB_loop net dsn i err (failed_attempts dsn i)
      = InitDB_loop net dsn (Suc i) (Some (e i)) (failed_attempts dsn (Suc i))"
    by (simp add: loop_failure failed_attempts_Suc)
  show ?case
  proof (cases "Suc i = j")
    case True
    with step show ?thesis by auto
  next
    case False
    with Suc.prems Suc.hyps(2)
    have "InitDB_loop net dsn (Suc i) (Some (e i)) (failed_attempts dsn (Suc i))
        = InitDB_loop net dsn j (Some (e (j - 1))) (failed_attempts dsn j)"
      by (intro Suc.hyps(1)) auto
    with step show ?thesis by simp
  qed
qed

text \<open>
  \<open>configure_pool\<close> returns the handle it is given with the three bounds set and
  nothing else changed.
\<close>

lemma configure_pool_eq:
  "configure_pool d = d\<lparr>maxOpen := 5, maxIdle := 5, maxLifetime := 300 * Second\<rparr>"
  by (simp add: configure_pool_def MaxOpenConns_def MaxIdleConns_def ConnMaxLifetime_def
      Minute_def)

text \<open>
  From any counter, the loop ends in one of two ways: an attempt numbered below
  \<open>MaxRetries\<close> succeeds with a handle after only failed attempts, each followed by its
  sleep, and that handle is returned with the bounds set; or \<open>MaxRetries\<close> attempts have
  failed.
\<close>

lemma loop_shape:
  assumes "i \<le> MaxRetries"
  shows "(\<exists>k d. i \<le> k \<and> k < MaxRetries
            \<and> fst (connectDB net dsn (failed_attempts dsn k)) = Inr d
            \<and> InitDB_loop net dsn i err (failed_attempts dsn i)
              = ((Some (configure_pool d), None), failed_attempts dsn k @ [EvConnect dsn]))
       \<or> (\<exists>e. InitDB_loop net dsn i err (failed_attempts dsn i)
              = ((None, Some e), failed_attempts dsn MaxRetries))"
  using assms
proof (induction "MaxRetries - i" arbitrary: i err)
  case 0
  then have "i = MaxRetries" by simp
  then show ?case by (subst InitDB_loop.simps) simp
next
  case (Suc n)
  then have lt: "i < MaxRetries" by simp
  show ?case
  proof (cases "fst (connectDB net dsn (failed_attempts dsn i))")
    case (Inr d)
    from loop_success [OF lt Inr] lt Inr show ?thesis by blast
  next
    case (Inl e)
    have step: "InitDB_loop net dsn i err (failed_attempts dsn i)
        = InitDB_loop net dsn (Suc i) (Some e) (failed_attempts dsn (Suc i))"
      using loop_failure [OF lt Inl] by (simp add: failed_attempts_Suc)
    have "(\<exists>k d. Suc i \<le> k \<and> k < MaxRetries
            \<and> fst (connectDB net dsn (failed_attempts dsn k)) = Inr d
            \<and> InitDB_loop net dsn (Suc i) (Some e) (failed_attempts dsn (Suc i))
              = ((Some (configure_pool d), None), failed_attempts dsn k @ [EvConnect dsn]))
       \<or> (\<exists>e'. InitDB_loop net dsn (Suc i) (Some e) (failed_attempts dsn (Suc i))
              = ((None, Some e'), failed_attempts dsn MaxRetries))"
      using Suc.hyps(2) lt by (intro Suc.hyps(1)) auto
    then show ?thesis
    proof (elim disjE exE conjE)
      fix k d
      assume "Suc i \<le> k" and "k < MaxRetries"
        and "fst (connectDB net dsn (failed_attempts dsn k)) = Inr d"
        and "InitDB_loop net dsn (Suc i) (Some e) (failed_attempts dsn (Suc i))
              = ((Some (configure_pool d), None), failed_attempts dsn k @ [EvConnect dsn])"
      with step have "i \<le> k \<and> k < MaxRetries
            \<and> fst (connectDB net dsn (failed_attempts dsn k)) = Inr d
            \<and> InitDB_loop net dsn i err (failed_attempts dsn i)
              = ((Some (configure_pool d), None), failed_attempts dsn k @ [EvConnect dsn])"
        by simp
      then show ?thesis by blast
    next
      fix e'
      assume "InitDB_loop net dsn (Suc i) (Some e) (failed_attempts dsn (Suc i))
              = ((None, Some e'), failed_attempts dsn MaxRetries)"
      with step show ?thesis by simp
    qed
  qed
qed

lemma InitDB_shape:
  "(\<exists>k d. k < MaxRetries
       \<and> fst (connectDB net dsn (failed_attempts dsn k)) = Inr d
       \<and> InitDB net dsn = ((Some (configure_pool d), None), failed_attempts dsn k @ [EvConnect dsn]))
   \<or> (\<exists>e. InitDB net dsn = ((None, Some e), failed_attempts dsn MaxRetries))"
  using loop_shape [of 0 net dsn None] by (simp add: InitDB_def failed_attempts_def)

lemma InitDB_fourth_succeeds:
  assumes "\<forall>k<3. isl (fst (connectDB net dsn (failed_attempts dsn k)))"
    and "fst (connectDB net dsn (failed_attempts dsn 3)) = Inr d"
  shows "InitDB net dsn = ((Some (configure_pool d), None), failed_attempts dsn 3 @ [EvConnect dsn])"
proof -
  let ?e = "\<lambda>k. projl (fst (connectDB net dsn (failed_attempts dsn k)))"
  have "\<forall>k. 0 \<le> k \<and> k < 3 \<longrightarrow> fst (connectDB net dsn (failed_attempts dsn k)) = Inl (?e k)"
    using assms(1) by simp
  then have "InitDB_loop net dsn 0 None (failed_attempts dsn 0)
      = InitDB_loop net dsn 3 (Some (?e (3 - 1))) (failed_attempts dsn 3)"
    by (rule loop_skip_failures) (simp_all add: MaxRetries_def)
  also have "\<dots> = ((Some (configure_pool d), None), failed_attempts dsn 3 @ [EvConnect dsn])"
    using assms(2) by (intro loop_success) (simp_all add: MaxRetries_def)
  finally show ?thesis by (simp add: InitDB_def failed_attempts_def)
qed

lemma InitDB_all_fail:
  assumes "\<forall>k<MaxRetries. isl (fst (connectDB net dsn (failed_attempts dsn k)))"
  shows "InitDB net dsn
       = ((None, Some (Errorf (F_retries MaxRetries)
             (projl (fst (connectDB net dsn (failed_attempts dsn (MaxRetries - 1))))))),
          failed_attempts dsn MaxRetries)"
proof -
  let ?e = "\<lambda>k. projl (fst (connectDB net dsn (failed_attempts dsn k)))"
  have "\<forall>k. 0 \<le> k \<and> k < MaxRetries \<longrightarrow> fst (connectDB net dsn (failed_attempts dsn k)) = Inl (?e k)"
    using assms by simp
  then have "InitDB_loop net dsn 0 None (failed_attempts dsn 0)
      = InitDB_loop net dsn MaxRetries (Some (?e (MaxRetries - 1))) (failed_attempts dsn MaxRetries)"
    by (rule loop_skip_failures) (simp_all add: MaxRetries_def)
  then show ?thesis by (simp add: InitDB_def failed_attempts_def loop_exhausted)
qed

text \<open>
  C8. \<open>InitDB\<close> makes at most 50 attempts, with one sleep of 5 seconds after each failed
  attempt and nothing else between attempts, and a handle it returns is the handle of
  the attempt that succeeded, with the three pool bounds set and nothing else changed;
  when the first 3 attempts fail and the 4th succeeds with the handle \<open>d\<close>, it returns
  \<open>d\<close> with the pool bounds set and a nil error, after exactly 4 attempts; when all 50
  attempts fail it returns no handle and an error that wraps the error of the 50th
  attempt.
\<close>

theorem InitDB_retry_budget:
  "MaxRetries = 50 \<and> RetryInterval = 5 * Second
   \<and> attempts (snd (InitDB net dsn)) \<le> 50
   \<and> ((\<exists>k d. k < 50
          \<and> fst (connectDB net dsn (failed_attempts dsn k)) = Inr d
          \<and> InitDB net dsn
            = ((Some (d\<lparr>maxOpen := 5, maxIdle := 5, maxLifetime := 300 * Second\<rparr>), None),
               failed_attempts dsn k @ [EvConnect dsn]))
      \<or> (\<exists>e. InitDB net dsn = ((None, Some e), failed_attempts dsn 50)))
   \<and> ((\<forall>k<3. isl (fst (connectDB net dsn (failed_attempts dsn k))))
        \<and> fst (connectDB net dsn (failed_attempts dsn 3)) = Inr d \<longrightarrow>
          fst (InitDB net dsn)
            = (Some (d\<lparr>maxOpen := 5, maxIdle := 5, maxLifetime := 300 * Second\<rparr>), None)
          \<and> snd (InitDB net dsn) = failed_attempts dsn 3 @ [EvConnect dsn]
          \<and> attempts (snd (InitDB net dsn)) = 4)
   \<and> ((\<forall>k<50. isl (fst (connectDB net dsn (failed_attempts dsn k)))) \<longrightarrow>
          InitDB net dsn
            = ((None, Some (Errorf (F_retries 50)
                  (projl (fst (connectDB net dsn (failed_attempts dsn 49)))))),
               failed_attempts dsn 50)
          \<and> errors_Is (Errorf (F_retries 50) (projl (fst (connectDB net dsn (failed_attempts dsn 49)))))
               (projl (fst (connectDB net dsn (failed_attempts dsn 49))))
          \<and> attempts (snd (InitDB net dsn)) = 50)"
proof -
  have budget: "MaxRetries = 50"
    by (simp add: MaxRetries_def)
  have interval: "RetryInterval = 5 * Second"
    by (simp add: RetryInterval_def)
  have shape: "(\<exists>k d. k < 50
          \<and> fst (connectDB net dsn (failed_attempts dsn k)) = Inr d
          \<and> InitDB net dsn
            = ((Some (d\<lparr>maxOpen := 5, maxIdle := 5, maxLifetime := 300 * Second\<rparr>), None),
               failed_attempts dsn k @ [EvConnect dsn]))
      \<or> (\<exists>e. InitDB net dsn = ((None, Some e), failed_attempts dsn 50))"
    using InitDB_shape [of net dsn] by (simp add: MaxRetries_def configure_pool_eq)
  have count: "attempts (failed_attempts dsn k @ [EvConnect dsn]) = Suc k" for k
    using attempts_failed_attempts [of dsn k] by (simp add: attempts_def)
  have bound: "attempts (snd (InitDB net dsn)) \<le> 50"
    using shape count attempts_failed_attempts [of dsn 50] by auto
  have fourth: "(\<forall>k<3. isl (fst (connectDB net dsn (failed_attempts dsn k))))
        \<and> fst (connectDB net dsn (failed_attempts dsn 3)) = Inr d \<longrightarrow>
          fst (InitDB net dsn)
            = (Some (d\<lparr>maxOpen := 5, maxIdle := 5, maxLifetime := 300 * Second\<rparr>), None)
          \<and> snd (InitDB net dsn) = failed_attempts dsn 3 @ [EvConnect dsn]
          \<and> attempts (snd (InitDB net dsn)) = 4"
  proof (intro impI, elim conjE)
    assume "\<forall>k<3. isl (fst (connectDB net dsn (failed_attempts dsn k)))"
      and "fst (connectDB net dsn (failed_attempts dsn 3)) = Inr d"
    then have "InitDB net dsn
        = ((Some (configure_pool d), None), failed_attempts dsn 3 @ [EvConnect dsn])"
      by (rule InitDB_fourth_succeeds)
    then show "fst (InitDB net dsn)
            = (Some (d\<lparr>maxOpen := 5, maxIdle := 5, maxLifetime := 300 * Second\<rparr>), None)
          \<and> snd (InitDB net dsn) = failed_attempts dsn 3 @ [EvConnect dsn]
          \<and> attempts (snd (InitDB net dsn)) = 4"
      using count [of 3] by (simp add: configure_pool_eq)
  qed
  have all: "(\<forall>k<50. isl (fst (connectDB net dsn (failed_attempts dsn k)))) \<longrightarrow>
          InitDB net dsn
            = ((None, Some (Errorf (F_retries 50)
                  (projl (fst (connectDB net dsn (failed_attempts dsn 49)))))),
               failed_attempts dsn 50)
          \<and> errors_Is (Errorf (F_retries 50) (projl (fst (connectDB net dsn (failed_attempts dsn 49)))))
               (projl (fst (connectDB net dsn (failed_attempts dsn 49))))
          \<and> attempts (snd (InitDB net dsn)) = 50"
  proof
    assume "\<forall>k<50. isl (fst (connectDB net dsn (failed_attempts dsn k)))"
    then have "InitDB net dsn
            = ((None, Some (Errorf (F_retries 50)
                  (projl (fst (connectDB net dsn (failed_attempts dsn 49)))))),
               failed_attempts dsn 50)"
      using InitDB_all_fail [of net dsn] by (simp add: MaxRetries_def)
    then show "InitDB net dsn
            = ((None, Some (Errorf (F_retries 50)
                  (projl (fst (connectDB net dsn (failed_attempts dsn 49)))))),
               failed_attempts dsn 50)
          \<and> errors_Is (Errorf (F_retries 50) (projl (fst (connectDB net dsn (failed_attempts dsn 49)))))
               (projl (fst (connectDB net dsn (failed_attempts dsn 49))))
          \<and> attempts (snd (InitDB net dsn)) = 50"
      using attempts_failed_attempts [of dsn 50] by (simp add: errors_Is_refl)
  qed
  show ?thesis
    by (intro conjI budget interval bound shape fourth all)
qed

lemma connectDB_net_up_after:
  "fst (connectDB (net_up_after n) dsn (failed_attempts dsn k))
     = (if k < n then Inl (Errorf F_ping (DriverError ''connection refused'')) else Inr plain_db)"
  by (simp add: connectDB_def net_up_after_def attempts_failed_attempts)

lemma connectDB_net_down:
  "fst (connectDB net_down dsn tr) = Inl (Errorf F_ping (DriverError ''connection refused''))"
  by (simp add: connectDB_def net_down_def)

theorem InitDB_retry_budget_witness:
  "InitDB (net_up_after 3) ''postgres://db''
     = ((Some \<lparr>maxOpen = 5, maxIdle = 5, maxLifetime = 300000000000,
               begin_result = (\<lambda>ctx h. Inr (plain_tx (length h)))\<rparr>, None),
        [EvConnect ''postgres://db'', EvSleep 5000000000,
         EvConnect ''postgres://db'', EvSleep 5000000000,
         EvConnect ''postgres://db'', EvSleep 5000000000,
         EvConnect ''postgres://db''])
   \<and> attempts (snd (InitDB (net_up_after 3) ''postgres://db'')) = 4
   \<and> InitDB net_down ''postgres://db''
     = ((None, Some (Errorf (F_retries 50) (Errorf F_ping (DriverError ''connection refused'')))),
        failed_attempts ''postgres://db'' 50)"
proof -
  have h1: "\<forall>k<3. isl (fst (connectDB (net_up_after 3) ''postgres://db''
      (failed_attempts ''postgres://db'' k)))"
    by (simp add: connectDB_net_up_after)
  have h2: "fst (connectDB (net_up_after 3) ''postgres://db'' (failed_attempts ''postgres://db'' 3))
      = Inr plain_db"
    by (simp add: connectDB_net_up_after)
  have h3: "\<forall>k<50. isl (fst (connectDB net_down ''postgres://db''
      (failed_attempts ''postgres://db'' k)))"
    by (simp add: connectDB_net_down)
  from InitDB_retry_budget [of "net_up_after 3" "''postgres://db''" plain_db] h1 h2
  have up: "fst (InitDB (net_up_after 3) ''postgres://db'')
        = (Some (plain_db\<lparr>maxOpen := 5, maxIdle := 5, maxLifetime := 300 * Second\<rparr>), None)
      \<and> snd (InitDB (net_up_after 3) ''postgres://db'')
          = failed_attempts ''postgres://db'' 3 @ [EvConnect ''postgres://db'']
      \<and> attempts (snd (InitDB (net_up_after 3) ''postgres://db'')) = 4"
    by blast
  from InitDB_retry_budget [of net_down "''postgres://db''" plain_db] h3
  have down: "InitDB net_down ''postgres://db''
      = ((None, Some (Errorf (F_retries 50)
            (projl (fst (connectDB net_down ''postgres://db'' (failed_attempts ''postgres://db'' 49)))))),
         failed_attempts ''postgres://db'' 50)"
    by blast
  have three: "failed_attempts ''postgres://db'' 3
      = [EvConnect ''postgres://db'', EvSleep 5000000000,
         EvConnect ''postgres://db'', EvSleep 5000000000,
         EvConnect ''postgres://db'', EvSleep 5000000000]"
    by (simp add: failed_attempts_def numeral_3_eq_3 RetryInterval_def Second_def)
  show ?thesis
  proof (intro conjI)
    show "InitDB (net_up_after 3) ''postgres://db''
        = ((Some \<lparr>maxOpen = 5, maxIdle = 5, maxLifetime = 300000000000,
                  begin_result = (\<lambda>ctx h. Inr (plain_tx (length h)))\<rparr>, None),
           [EvConnect ''postgres://db'', EvSleep 5000000000,
            EvConnect ''postgres://db'', EvSleep 5000000000,
            EvConnect ''postgres://db'', EvSleep 5000000000,
            EvConnect ''postgres://db''])"
      using up three by (simp add: prod_eq_iff plain_db_def Second_def)
    show "attempts (snd (InitDB (net_up_after 3) ''postgres://db'')) = 4"
      using up by blast
    show "InitDB net_down ''postgres://db''
        = ((None, Some (Errorf (F_retries 50) (Errorf F_ping (DriverError ''connection refused'')))),
           failed_attempts ''postgres://db'' 50)"
      using down by (simp add: connectDB_net_down)
  qed
qed

end
